theory Spec2Isabelle
  imports Complex_Main
begin

section \<open>Values\<close>

text \<open>
  A JavaScript number is modelled as a mathematical real, and \<open>Math.PI\<close>, \<open>Math.sin\<close>,
  \<open>Math.cos\<close>, \<open>Math.sqrt\<close> and \<open>Math.abs\<close> as \<^term>\<open>pi\<close>, \<^term>\<open>sin\<close>,
  \<^term>\<open>cos\<close>, \<^term>\<open>sqrt\<close> and \<^term>\<open>abs\<close>. The source computes in IEEE doubles: the
  model agrees with it where every operation of the source is exact (small integers, zero),
  and says nothing about rounding, overflow to \<open>Infinity\<close> or \<open>NaN\<close>. The arithmetic
  that \<open>quop.js\<close> does itself is all in \<open>Quop.fromRotation\<close>; nothing is stated
  about it but at the zero vector, where no operation rounds. The arithmetic of the
  entries is the Scalar's, taken from the spec as that of the complex numbers.
\<close>

text \<open>
  Modelled from the spec: the class \<open>Complex\<close> of \<open>complex.js\<close> is not among the
  sources of this development. The spec describes the Scalar as a complex number with a real and an
  imaginary part, an immutable value.
\<close>

record Complex_num =
  re :: real
  im :: real

text \<open>The fields \<open>a\<close>, \<open>b\<close>, \<open>c\<close>, \<open>d\<close> of a \<open>Quop\<close>: the matrix \<open>[[a, b], [c, d]]\<close>.\<close>

record Quop =
  qa :: Complex_num
  qb :: Complex_num
  qc :: Complex_num
  qd :: Complex_num

text \<open>
  The dynamically typed values that reach the entry points with run-time type tests
  (\<open>instanceof\<close>, \<open>typeof\<close>).
\<close>

datatype jsval =
    NumberV (the_Number: real)
  | ComplexV (the_Complex: Complex_num)
  | QuopV (the_Quop: Quop)
  | ArrayV (elems: "jsval list")
  | StringV string
  | UndefinedV
  | NullV

text \<open>
  Every \<open>throw\<close> of the source throws a message string; the spec names the error kind
  \<open>InvalidArgument\<close>. The payload is the fixed part of the message (the source appends
  the offending value's string form).
\<close>

datatype error = InvalidArgument string

definition and_then :: "error + 'a \<Rightarrow> ('a \<Rightarrow> error + 'b) \<Rightarrow> error + 'b" where
  "and_then r f = (case r of Inl e \<Rightarrow> Inl e | Inr x \<Rightarrow> f x)"

section \<open>The Scalar collaborator\<close>

text \<open>
  Modelled from the spec: \<open>Complex.from\<close> is missing from the sources. A real number or
  a Scalar converts to a Scalar (a real \<open>r\<close> to \<open>r + 0i\<close>); anything else cannot
  convert and fails with \<open>InvalidArgument\<close>.
\<close>

definition Complex_from :: "jsval \<Rightarrow> error + Complex_num" where
  "Complex_from v =
     (if is_ComplexV v then Inr (the_Complex v)
      else if is_NumberV v then Inr \<lparr>re = the_Number v, im = 0\<rparr>
      else Inl (InvalidArgument ''cannot convert to a Scalar''))"

text \<open>Modelled from the spec: \<open>conjugate()\<close> is missing from the sources; complex conjugation.\<close>

definition conjugate :: "Complex_num \<Rightarrow> Complex_num" where
  "conjugate c = \<lparr>re = re c, im = - im c\<rparr>"

text \<open>Modelled from the spec: \<open>plus(Scalar)\<close> is missing from the sources; complex addition.\<close>

definition Complex_plus :: "Complex_num \<Rightarrow> Complex_num \<Rightarrow> Complex_num" where
  "Complex_plus c w = \<lparr>re = re c + re w, im = im c + im w\<rparr>"

text \<open>
  Modelled from the spec: \<open>minus(Scalar)\<close> is missing from the sources; the difference
  of two Scalars, as the element-wise difference of the spec's \<open>minus\<close> needs it.
\<close>

definition Complex_minus :: "Complex_num \<Rightarrow> Complex_num \<Rightarrow> Complex_num" where
  "Complex_minus c w = \<lparr>re = re c - re w, im = im c - im w\<rparr>"

text \<open>
  Modelled from the spec: \<open>times(Scalar|number)\<close> is missing from the sources; the
  factor is converted to a Scalar and the two are multiplied as complex numbers.
\<close>

definition Complex_times :: "Complex_num \<Rightarrow> jsval \<Rightarrow> error + Complex_num" where
  "Complex_times c v =
     and_then (Complex_from v) (\<lambda>w.
       Inr \<lparr>re = re c * re w - im c * im w, im = re c * im w + im c * re w\<rparr>)"

text \<open>
  Modelled from the spec: \<open>isEqualTo(Scalar|other)\<close> of the Scalar is missing from the
  sources; equality of both parts, and false (never raising) on a foreign value.
\<close>

definition Complex_isEqualTo :: "Complex_num \<Rightarrow> jsval \<Rightarrow> bool" where
  "Complex_isEqualTo c other =
     (is_ComplexV other \<and> re c = re (the_Complex other) \<and> im c = im (the_Complex other))"

section \<open>Quop\<close>

text \<open>The constructor \<open>function Quop(a, b, c, d)\<close> with its four \<open>instanceof\<close> checks.\<close>

definition new_Quop :: "jsval \<Rightarrow> jsval \<Rightarrow> jsval \<Rightarrow> jsval \<Rightarrow> error + Quop" where
  "new_Quop a b c d =
     (if \<not> is_ComplexV a then Inl (InvalidArgument ''need(a instanceof Complex): '')
      else if \<not> is_ComplexV b then Inl (InvalidArgument ''need(b instanceof Complex): '')
      else if \<not> is_ComplexV c then Inl (InvalidArgument ''need(c instanceof Complex): '')
      else if \<not> is_ComplexV d then Inl (InvalidArgument ''need(d instanceof Complex): '')
      else Inr \<lparr>qa = the_Complex a, qb = the_Complex b, qc = the_Complex c, qd = the_Complex d\<rparr>)"

text \<open>\<open>Quop.from\<close>: the arguments of \<open>new Quop\<close> are evaluated from left to right.\<close>

definition Quop_from :: "jsval \<Rightarrow> error + Quop" where
  "Quop_from coefs =
     (if is_ArrayV coefs then
        (if length (elems coefs) \<noteq> 4 then Inl (InvalidArgument ''Wrong number of coefficients: '')
         else
           and_then (Complex_from (elems coefs ! 0)) (\<lambda>a.
           and_then (Complex_from (elems coefs ! 1)) (\<lambda>b.
           and_then (Complex_from (elems coefs ! 2)) (\<lambda>c.
           and_then (Complex_from (elems coefs ! 3)) (\<lambda>d.
             new_Quop (ComplexV a) (ComplexV b) (ComplexV c) (ComplexV d))))))
      else Inl (InvalidArgument ''Don't know how to convert into a 2x2 unitary matrix: ''))"

text \<open>
  \<open>Quop.prototype.isEqualTo\<close>: \<open>&&\<close> evaluates from left to right and stops at the
  first false operand, so the fields of \<open>other\<close> are read only when it is a \<open>Quop\<close>.
\<close>

definition isEqualTo :: "Quop \<Rightarrow> jsval \<Rightarrow> bool" where
  "isEqualTo this other =
     (is_QuopV other \<and>
      Complex_isEqualTo (qa this) (ComplexV (qa (the_Quop other))) \<and>
      Complex_isEqualTo (qb this) (ComplexV (qb (the_Quop other))) \<and>
      Complex_isEqualTo (qc this) (ComplexV (qc (the_Quop other))) \<and>
      Complex_isEqualTo (qd this) (ComplexV (qd (the_Quop other))))"

text \<open>
  \<open>Quop.prototype.toString\<close>: string concatenation calls the \<open>toString\<close> of each
  entry. The Scalar's display form is missing from the sources and is a parameter here.
\<close>

definition toString :: "(Complex_num \<Rightarrow> string) \<Rightarrow> Quop \<Rightarrow> string" where
  "toString display this =
     ''{{'' @ display (qa this) @ '', '' @ display (qb this) @ ''}, {'' @
     display (qc this) @ '', '' @ display (qd this) @ ''}}''"

definition adjoint :: "Quop \<Rightarrow> error + Quop" where
  "adjoint this =
     new_Quop
       (ComplexV (conjugate (qa this)))
       (ComplexV (conjugate (qc this)))
       (ComplexV (conjugate (qb this)))
       (ComplexV (conjugate (qd this)))"

definition scaledBy :: "Quop \<Rightarrow> jsval \<Rightarrow> error + Quop" where
  "scaledBy this v =
     and_then (Complex_times (qa this) v) (\<lambda>a.
     and_then (Complex_times (qb this) v) (\<lambda>b.
     and_then (Complex_times (qc this) v) (\<lambda>c.
     and_then (Complex_times (qd this) v) (\<lambda>d.
       new_Quop (ComplexV a) (ComplexV b) (ComplexV c) (ComplexV d)))))"

definition plus :: "Quop \<Rightarrow> Quop \<Rightarrow> error + Quop" where
  "plus this other =
     new_Quop
       (ComplexV (Complex_plus (qa this) (qa other)))
       (ComplexV (Complex_plus (qb this) (qb other)))
       (ComplexV (Complex_plus (qc this) (qc other)))
       (ComplexV (Complex_plus (qd this) (qd other)))"

definition minus :: "Quop \<Rightarrow> Quop \<Rightarrow> error + Quop" where
  "minus this other =
     new_Quop
       (ComplexV (Complex_minus (qa this) (qa other)))
       (ComplexV (Complex_minus (qb this) (qb other)))
       (ComplexV (Complex_minus (qc this) (qc other)))
       (ComplexV (Complex_minus (qd this) (qd other)))"

text \<open>
  \<open>Quop.prototype.times\<close>, with the source's locals \<open>a\<close> to \<open>h\<close>; each entry is
  \<open>p.times(q).plus(r.times(s))\<close>.
\<close>

definition times :: "Quop \<Rightarrow> Quop \<Rightarrow> error + Quop" where
  "times this other =
     (let a = qa this; b = qb this; c = qc this; d = qd this;
          e = qa other; f = qb other; g = qc other; h = qd other
      in
        and_then (Complex_times a (ComplexV e)) (\<lambda>ae.
        and_then (Complex_times b (ComplexV g)) (\<lambda>bg.
        and_then (Complex_times a (ComplexV f)) (\<lambda>af.
        and_then (Complex_times b (ComplexV h)) (\<lambda>bh.
        and_then (Complex_times c (ComplexV e)) (\<lambda>ce.
        and_then (Complex_times d (ComplexV g)) (\<lambda>dg.
        and_then (Complex_times c (ComplexV f)) (\<lambda>cf.
        and_then (Complex_times d (ComplexV h)) (\<lambda>dh.
          new_Quop
            (ComplexV (Complex_plus ae bg)) (ComplexV (Complex_plus af bh))
            (ComplexV (Complex_plus ce dg)) (ComplexV (Complex_plus cf dh)))))))))))"

subsection \<open>The constants\<close>

text \<open>Each constant is the result of a call at load time, so it is a result value.\<close>

definition IDENTITY :: "error + Quop" where
  "IDENTITY = Quop_from (ArrayV [NumberV 1, NumberV 0, NumberV 0, NumberV 1])"

definition PAULI_X :: "error + Quop" where
  "PAULI_X = Quop_from (ArrayV [NumberV 0, NumberV 1, NumberV 1, NumberV 0])"

definition PAULI_Y :: "error + Quop" where
  "PAULI_Y = Quop_from (ArrayV
     [NumberV 0, ComplexV \<lparr>re = 0, im = - 1\<rparr>, ComplexV \<lparr>re = 0, im = 1\<rparr>, NumberV 0])"

definition PAULI_Z :: "error + Quop" where
  "PAULI_Z = Quop_from (ArrayV [NumberV 1, NumberV 0, NumberV 0, NumberV (- 1)])"

definition HADAMARD :: "error + Quop" where
  "HADAMARD =
     and_then (Quop_from (ArrayV [NumberV 1, NumberV 1, NumberV 1, NumberV (- 1)]))
       (\<lambda>q. scaledBy q (NumberV (sqrt 0.5)))"

subsection \<open>Rotations\<close>

text \<open>The inner function \<open>sinc\<close> of \<open>Quop.fromRotation\<close>.\<close>

definition sinc :: "real \<Rightarrow> real" where
  "sinc t = (if \<bar>t\<bar> < 0.0002 then 1 - t * t / 6.0 else sin t / t)"

text \<open>
  The locals \<open>s\<close> and \<open>theta\<close> of \<open>Quop.fromRotation\<close>, as functions of the scaled
  components \<open>x\<close>, \<open>y\<close>, \<open>z\<close>.
\<close>

definition fromRotation_s :: "real \<Rightarrow> real \<Rightarrow> real \<Rightarrow> real" where
  "fromRotation_s x y z = (if - 11 * x + - 13 * y + - 17 * z \<ge> 0 then 1 else - 1)"

definition fromRotation_theta :: "real \<Rightarrow> real \<Rightarrow> real \<Rightarrow> real" where
  "fromRotation_theta x y z = sqrt (x * x + y * y + z * z)"

text \<open>
  \<open>Quop.fromRotation\<close>. The argument is the vector \<open>[v[0], v[1], v[2]]\<close> of numbers;
  the calls are in the source's order of evaluation. The arithmetic of lines 146 to 157
  is exact here, where the source rounds each product, sum and function value to a
  double: the sign \<open>s\<close> of the source differs from \<open>fromRotation_s\<close> when rounding
  moves the linear form across 0 (as at \<open>[13, -11, 0]\<close>), and its \<open>theta\<close> is
  \<open>Infinity\<close> when a square overflows (as at \<open>[1e154, 0, 0]\<close>). The definition is used
  at the zero vector only, where every operation of the source is exact: the products
  with 0 are 0, the sum is 0 and passes the \<open>>= 0\<close> test, and \<open>sqrt\<close>, \<open>cos\<close> and
  \<open>sin\<close> of 0 are 0, 1 and 0.
\<close>

definition fromRotation :: "real \<times> real \<times> real \<Rightarrow> error + Quop" where
  "fromRotation v =
     (let x = fst v * pi * 2;
          y = fst (snd v) * pi * 2;
          z = snd (snd v) * pi * 2;
          s = fromRotation_s x y z;
          theta = fromRotation_theta x y z
      in
        and_then PAULI_X (\<lambda>px. and_then (scaledBy px (NumberV x)) (\<lambda>sx.
        and_then PAULI_Y (\<lambda>py. and_then (scaledBy py (NumberV y)) (\<lambda>sy.
        and_then (plus sx sy) (\<lambda>sxy.
        and_then PAULI_Z (\<lambda>pz. and_then (scaledBy pz (NumberV z)) (\<lambda>sz.
        and_then (plus sxy sz) (\<lambda>sigma_v.
        and_then (Complex_times \<lparr>re = 1 + cos (s * theta), im = sin (s * theta)\<rparr>
                    (NumberV 0.5)) (\<lambda>ci.
        and_then (Complex_times \<lparr>re = sin (theta / 2) * sinc (theta / 2), im = - s * sinc theta\<rparr>
                    (NumberV (s * 0.5))) (\<lambda>cv.
        and_then IDENTITY (\<lambda>i. and_then (scaledBy i (ComplexV ci)) (\<lambda>ici.
        and_then (scaledBy sigma_v (ComplexV cv)) (\<lambda>scv.
          minus ici scv))))))))))))))"

section \<open>Reference definitions, in the words of the specification\<close>

text \<open>
  The specification speaks of complex numbers and of 2 by 2 matrices over them. A
  \<open>Complex_num\<close> denotes a complex number and a \<open>Quop\<close> the matrix of its four entries,
  in a-b-c-d order.
\<close>

type_synonym matrix2 = "complex \<times> complex \<times> complex \<times> complex"

definition complex_of :: "Complex_num \<Rightarrow> complex" where
  "complex_of c = Complex (re c) (im c)"

definition matrix_of :: "Quop \<Rightarrow> matrix2" where
  "matrix_of q = (complex_of (qa q), complex_of (qb q), complex_of (qc q), complex_of (qd q))"

text \<open>The product of the specification: entries \<open>ae+bg\<close>, \<open>af+bh\<close>, \<open>ce+dg\<close>, \<open>cf+dh\<close>.\<close>

definition m_times :: "matrix2 \<Rightarrow> matrix2 \<Rightarrow> matrix2" where
  "m_times m n =
     (case m of (a, b, c, d) \<Rightarrow> case n of (e, f, g, h) \<Rightarrow>
        (a * e + b * g, a * f + b * h, c * e + d * g, c * f + d * h))"

section \<open>Evaluating the operations\<close>

lemma and_then_Inr [simp]: "and_then (Inr x) f = f x"
  by (simp add: and_then_def)

lemma and_then_Inl [simp]: "and_then (Inl e) f = Inl e"
  by (simp add: and_then_def)

lemma Complex_from_Number [simp]: "Complex_from (NumberV r) = Inr \<lparr>re = r, im = 0\<rparr>"
  by (simp add: Complex_from_def)

lemma Complex_from_Complex [simp]: "Complex_from (ComplexV c) = Inr c"
  by (simp add: Complex_from_def)

lemma Complex_from_isl: "isl (Complex_from v) \<longleftrightarrow> \<not> is_NumberV v \<and> \<not> is_ComplexV v"
  by (simp add: Complex_from_def)

lemma Complex_from_convertible:
  "is_NumberV v \<or> is_ComplexV v \<Longrightarrow> \<exists>c. Complex_from v = Inr c"
  by (auto simp: Complex_from_def)

lemma Complex_times_Number [simp]:
  "Complex_times c (NumberV r) = Inr \<lparr>re = re c * r, im = im c * r\<rparr>"
  by (simp add: Complex_times_def)

lemma Complex_times_Complex [simp]:
  "Complex_times c (ComplexV w) =
     Inr \<lparr>re = re c * re w - im c * im w, im = re c * im w + im c * re w\<rparr>"
  by (simp add: Complex_times_def)

text \<open>The constructor never fails on four Scalars: this is how every method calls it.\<close>

lemma new_Quop_Complex [simp]:
  "new_Quop (ComplexV a) (ComplexV b) (ComplexV c) (ComplexV d) =
     Inr \<lparr>qa = a, qb = b, qc = c, qd = d\<rparr>"
  by (simp add: new_Quop_def)

lemma Quop_from_four:
  "Quop_from (ArrayV [a, b, c, d]) =
     and_then (Complex_from a) (\<lambda>a'. and_then (Complex_from b) (\<lambda>b'.
     and_then (Complex_from c) (\<lambda>c'. and_then (Complex_from d) (\<lambda>d'.
       Inr \<lparr>qa = a', qb = b', qc = c', qd = d'\<rparr>))))"
  by (simp add: Quop_from_def)

lemma length_four: "length xs = 4 \<Longrightarrow> \<exists>a b c d. xs = [a, b, c, d]"
  by (cases xs; simp; cases "tl xs"; simp; cases "tl (tl xs)"; simp;
      cases "tl (tl (tl xs))"; simp)

lemma Quop_from_isl:
  "isl (Quop_from (ArrayV xs)) \<longleftrightarrow>
     length xs \<noteq> 4 \<or> (\<exists>x\<in>set xs. \<not> is_NumberV x \<and> \<not> is_ComplexV x)"
proof (cases "length xs = 4")
  case False
  then show ?thesis by (simp add: Quop_from_def)
next
  case True
  then obtain a b c d where xs: "xs = [a, b, c, d]"
    using length_four by blast
  show ?thesis
    unfolding xs Quop_from_four
    by (cases "Complex_from a"; cases "Complex_from b"; cases "Complex_from c";
        cases "Complex_from d")
       (use Complex_from_isl [of a] Complex_from_isl [of b] Complex_from_isl [of c]
          Complex_from_isl [of d] in auto)
qed

lemma IDENTITY_value:
  "IDENTITY = Inr \<lparr>qa = \<lparr>re = 1, im = 0\<rparr>, qb = \<lparr>re = 0, im = 0\<rparr>,
                   qc = \<lparr>re = 0, im = 0\<rparr>, qd = \<lparr>re = 1, im = 0\<rparr>\<rparr>"
  by (simp add: IDENTITY_def Quop_from_def)

lemma PAULI_X_value:
  "PAULI_X = Inr \<lparr>qa = \<lparr>re = 0, im = 0\<rparr>, qb = \<lparr>re = 1, im = 0\<rparr>,
                  qc = \<lparr>re = 1, im = 0\<rparr>, qd = \<lparr>re = 0, im = 0\<rparr>\<rparr>"
  by (simp add: PAULI_X_def Quop_from_def)

lemma PAULI_Y_value:
  "PAULI_Y = Inr \<lparr>qa = \<lparr>re = 0, im = 0\<rparr>, qb = \<lparr>re = 0, im = - 1\<rparr>,
                  qc = \<lparr>re = 0, im = 1\<rparr>, qd = \<lparr>re = 0, im = 0\<rparr>\<rparr>"
  by (simp add: PAULI_Y_def Quop_from_def)

lemma PAULI_Z_value:
  "PAULI_Z = Inr \<lparr>qa = \<lparr>re = 1, im = 0\<rparr>, qb = \<lparr>re = 0, im = 0\<rparr>,
                  qc = \<lparr>re = 0, im = 0\<rparr>, qd = \<lparr>re = - 1, im = 0\<rparr>\<rparr>"
  by (simp add: PAULI_Z_def Quop_from_def)

lemma scaledBy_Number:
  "scaledBy q (NumberV r) = Inr \<lparr>
      qa = \<lparr>re = re (qa q) * r, im = im (qa q) * r\<rparr>,
      qb = \<lparr>re = re (qb q) * r, im = im (qb q) * r\<rparr>,
      qc = \<lparr>re = re (qc q) * r, im = im (qc q) * r\<rparr>,
      qd = \<lparr>re = re (qd q) * r, im = im (qd q) * r\<rparr>\<rparr>"
  by (simp add: scaledBy_def)

lemma scaledBy_Complex:
  "scaledBy q (ComplexV w) = Inr \<lparr>
      qa = \<lparr>re = re (qa q) * re w - im (qa q) * im w, im = re (qa q) * im w + im (qa q) * re w\<rparr>,
      qb = \<lparr>re = re (qb q) * re w - im (qb q) * im w, im = re (qb q) * im w + im (qb q) * re w\<rparr>,
      qc = \<lparr>re = re (qc q) * re w - im (qc q) * im w, im = re (qc q) * im w + im (qc q) * re w\<rparr>,
      qd = \<lparr>re = re (qd q) * re w - im (qd q) * im w, im = re (qd q) * im w + im (qd q) * re w\<rparr>\<rparr>"
  by (simp add: scaledBy_def)

lemma adjoint_value:
  "adjoint x =
     Inr \<lparr>qa = conjugate (qa x), qb = conjugate (qc x), qc = conjugate (qb x), qd = conjugate (qd x)\<rparr>"
  by (simp add: adjoint_def)

lemma isEqualTo_Quop:
  "isEqualTo p (QuopV q) \<longleftrightarrow> qa p = qa q \<and> qb p = qb q \<and> qc p = qc q \<and> qd p = qd q"
  by (auto simp: isEqualTo_def Complex_isEqualTo_def)

lemma times_value:
  "times p q = Inr \<lparr>
     qa = \<lparr>re = re (qa p) * re (qa q) - im (qa p) * im (qa q) +
                (re (qb p) * re (qc q) - im (qb p) * im (qc q)),
           im = re (qa p) * im (qa q) + im (qa p) * re (qa q) +
                (re (qb p) * im (qc q) + im (qb p) * re (qc q))\<rparr>,
     qb = \<lparr>re = re (qa p) * re (qb q) - im (qa p) * im (qb q) +
                (re (qb p) * re (qd q) - im (qb p) * im (qd q)),
           im = re (qa p) * im (qb q) + im (qa p) * re (qb q) +
                (re (qb p) * im (qd q) + im (qb p) * re (qd q))\<rparr>,
     qc = \<lparr>re = re (qc p) * re (qa q) - im (qc p) * im (qa q) +
                (re (qd p) * re (qc q) - im (qd p) * im (qc q)),
           im = re (qc p) * im (qa q) + im (qc p) * re (qa q) +
                (re (qd p) * im (qc q) + im (qd p) * re (qc q))\<rparr>,
     qd = \<lparr>re = re (qc p) * re (qb q) - im (qc p) * im (qb q) +
                (re (qd p) * re (qd q) - im (qd p) * im (qd q)),
           im = re (qc p) * im (qb q) + im (qc p) * re (qb q) +
                (re (qd p) * im (qd q) + im (qd p) * re (qd q))\<rparr>\<rparr>"
  by (simp add: times_def Let_def Complex_plus_def)

text \<open>The matrix of a \<open>Quop\<close> determines it: equal matrices are equal values.\<close>

lemma matrix_of_inj: "matrix_of p = matrix_of q \<longleftrightarrow> p = q"
  by (cases p; cases q; cases "qa p"; cases "qb p"; cases "qc p"; cases "qd p";
      cases "qa q"; cases "qb q"; cases "qc q"; cases "qd q")
     (auto simp: matrix_of_def complex_of_def)

subsection \<open>The rotation, entry by entry\<close>

lemma fromRotation_value:
  "fromRotation (vx, vy, vz) =
     (let x = vx * pi * 2; y = vy * pi * 2; z = vz * pi * 2;
          s = fromRotation_s x y z; theta = fromRotation_theta x y z;
          cir = (1 + cos (s * theta)) * 0.5; cii = sin (s * theta) * 0.5;
          cvr = sin (theta / 2) * sinc (theta / 2) * (s * 0.5);
          cvi = - s * sinc theta * (s * 0.5)
      in Inr \<lparr>qa = \<lparr>re = cir - z * cvr, im = cii - z * cvi\<rparr>,
              qb = \<lparr>re = cir * 0 - (x * cvr - (- y) * cvi),
                    im = cii * 0 - (x * cvi + (- y) * cvr)\<rparr>,
              qc = \<lparr>re = 0 - (x * cvr - y * cvi), im = 0 - (x * cvi + y * cvr)\<rparr>,
              qd = \<lparr>re = cir + z * cvr, im = cii + z * cvi\<rparr>\<rparr>)"
  by (simp add: fromRotation_def Let_def PAULI_X_value PAULI_Y_value PAULI_Z_value
      IDENTITY_value scaledBy_Number scaledBy_Complex plus_def minus_def Complex_plus_def
      Complex_minus_def)

section \<open>The claims\<close>

text \<open>
  C2: on the zero vector the angle \<open>theta\<close> is 0, the linear form of the sign is 0 and
  the \<open>>= 0\<close> test gives \<open>s = 1\<close>, \<open>sinc\<close> takes its series branch, and the result is
  the constant \<open>IDENTITY\<close>: \<open>fromRotation([0,0,0]).isEqualTo(IDENTITY)\<close> holds.
\<close>

theorem fromRotation_zero_vector:
  "fromRotation_theta (0 * pi * 2) (0 * pi * 2) (0 * pi * 2) = 0 \<and>
   - 11 * (0 * pi * 2) + - 13 * (0 * pi * 2) + - 17 * (0 * pi * 2) = (0::real) \<and>
   fromRotation_s (0 * pi * 2) (0 * pi * 2) (0 * pi * 2) = 1 \<and>
   \<bar>0::real\<bar> < 0.0002 \<and> sinc 0 = 1 - 0 * 0 / 6.0 \<and>
   (\<exists>r i. fromRotation (0, 0, 0) = Inr r \<and> IDENTITY = Inr i \<and> r = i \<and>
      isEqualTo r (QuopV i))"
  by (simp add: fromRotation_value Let_def IDENTITY_value isEqualTo_Quop
      fromRotation_theta_def fromRotation_s_def sinc_def)

text \<open>
  C4: for all operations with entries \<open>(a, b, c, d)\<close> and \<open>(e, f, g, h)\<close>, \<open>times\<close>
  raises no error and returns the standard matrix product, receiver on the left:
  entries \<open>ae+bg\<close>, \<open>af+bh\<close>, \<open>ce+dg\<close>, \<open>cf+dh\<close>.
\<close>

theorem times_is_matrix_product:
  "\<exists>r. times p q = Inr r \<and> matrix_of r = m_times (matrix_of p) (matrix_of q)"
  by (simp add: times_value matrix_of_def m_times_def complex_of_def complex_eq_iff)

text \<open>
  C5: the product of the Pauli constants does not commute: \<open>PAULI_X.times(PAULI_Y)\<close> is
  \<open>PAULI_Z\<close> scaled by \<open>i\<close>, \<open>PAULI_Y.times(PAULI_X)\<close> is \<open>PAULI_Z\<close> scaled by \<open>-i\<close>,
  and the two products are not equal.
\<close>

theorem pauli_products_anticommute:
  "\<exists>xy yx iz miz.
     and_then PAULI_X (\<lambda>x. and_then PAULI_Y (\<lambda>y. times x y)) = Inr xy \<and>
     and_then PAULI_Y (\<lambda>y. and_then PAULI_X (\<lambda>x. times y x)) = Inr yx \<and>
     and_then PAULI_Z (\<lambda>z. scaledBy z (ComplexV \<lparr>re = 0, im = 1\<rparr>)) = Inr iz \<and>
     and_then PAULI_Z (\<lambda>z. scaledBy z (ComplexV \<lparr>re = 0, im = - 1\<rparr>)) = Inr miz \<and>
     isEqualTo xy (QuopV iz) \<and> isEqualTo yx (QuopV miz) \<and> \<not> isEqualTo xy (QuopV yx)"
  by (simp add: PAULI_X_value PAULI_Y_value PAULI_Z_value times_value scaledBy_Complex
      isEqualTo_Quop)

text \<open>
  C6: on an array, \<open>Quop.from\<close> raises (an \<open>InvalidArgument\<close>) exactly when the array
  does not have length 4 or one of its elements is neither a number nor a Scalar; on an
  array of four convertible elements it raises nothing and returns the operation whose
  entries are the converted elements in a-b-c-d order.
\<close>

theorem Quop_from_validation:
  "(isl (Quop_from (ArrayV xs)) \<longleftrightarrow>
      length xs \<noteq> 4 \<or> (\<exists>x\<in>set xs. \<not> is_NumberV x \<and> \<not> is_ComplexV x)) \<and>
   (\<forall>e. Quop_from (ArrayV xs) = Inl e \<longrightarrow> (\<exists>m. e = InvalidArgument m)) \<and>
   (\<forall>a b c d. xs = [a, b, c, d] \<and> (\<forall>x\<in>set xs. is_NumberV x \<or> is_ComplexV x) \<longrightarrow>
      (\<exists>a' b' c' d'. Complex_from a = Inr a' \<and> Complex_from b = Inr b' \<and>
         Complex_from c = Inr c' \<and> Complex_from d = Inr d' \<and>
         Quop_from (ArrayV xs) = Inr \<lparr>qa = a', qb = b', qc = c', qd = d'\<rparr>))"
proof (intro conjI allI impI)
  show "isl (Quop_from (ArrayV xs)) \<longleftrightarrow>
      length xs \<noteq> 4 \<or> (\<exists>x\<in>set xs. \<not> is_NumberV x \<and> \<not> is_ComplexV x)"
    by (rule Quop_from_isl)
next
  fix e
  show "\<exists>m. e = InvalidArgument m"
    by (cases e) simp
next
  fix a b c d
  assume h: "xs = [a, b, c, d] \<and> (\<forall>x\<in>set xs. is_NumberV x \<or> is_ComplexV x)"
  then obtain a' b' c' d' where
    "Complex_from a = Inr a'" "Complex_from b = Inr b'"
    "Complex_from c = Inr c'" "Complex_from d = Inr d'"
    using Complex_from_convertible [of a] Complex_from_convertible [of b]
      Complex_from_convertible [of c] Complex_from_convertible [of d]
    by auto
  with h show "\<exists>a' b' c' d'. Complex_from a = Inr a' \<and> Complex_from b = Inr b' \<and>
         Complex_from c = Inr c' \<and> Complex_from d = Inr d' \<and>
         Quop_from (ArrayV xs) = Inr \<lparr>qa = a', qb = b', qc = c', qd = d'\<rparr>"
    by (simp add: Quop_from_four)
qed

theorem Quop_from_validation_witness:
  "isl (Quop_from (ArrayV [NumberV 1, NumberV 2, NumberV 3])) \<and>
   isl (Quop_from (ArrayV [NumberV 1, NumberV 2, NumberV 3, NumberV 4, NumberV 5])) \<and>
   isl (Quop_from (ArrayV [NumberV 1, StringV ''x'', NumberV 3, NumberV 4])) \<and>
   Quop_from (ArrayV [NumberV 1, ComplexV \<lparr>re = 0, im = 1\<rparr>, NumberV 3, NumberV 4]) =
     Inr \<lparr>qa = \<lparr>re = 1, im = 0\<rparr>, qb = \<lparr>re = 0, im = 1\<rparr>,
          qc = \<lparr>re = 3, im = 0\<rparr>, qd = \<lparr>re = 4, im = 0\<rparr>\<rparr>"
  using Quop_from_validation [of "[NumberV 1, NumberV 2, NumberV 3]"]
    Quop_from_validation [of "[NumberV 1, NumberV 2, NumberV 3, NumberV 4, NumberV 5]"]
    Quop_from_validation [of "[NumberV 1, StringV ''x'', NumberV 3, NumberV 4]"]
    Quop_from_validation
      [of "[NumberV 1, ComplexV \<lparr>re = 0, im = 1\<rparr>, NumberV 3, NumberV 4]"]
  by simp

text \<open>
  C7: \<open>isEqualTo\<close> returns a boolean and raises nothing; it is false on every value that
  is not a \<open>Quop\<close>, and on a \<open>Quop\<close> it is true exactly when the four entries agree,
  real part with real part and imaginary part with imaginary part.
\<close>

theorem isEqualTo_foreign:
  "(\<not> is_QuopV other \<longrightarrow> \<not> isEqualTo this other) \<and>
   (isEqualTo this (QuopV q) \<longleftrightarrow>
      re (qa this) = re (qa q) \<and> im (qa this) = im (qa q) \<and>
      re (qb this) = re (qb q) \<and> im (qb this) = im (qb q) \<and>
      re (qc this) = re (qc q) \<and> im (qc this) = im (qc q) \<and>
      re (qd this) = re (qd q) \<and> im (qd this) = im (qd q))"
  by (auto simp: isEqualTo_def Complex_isEqualTo_def)

theorem isEqualTo_foreign_witness:
  "\<not> isEqualTo \<lparr>qa = \<lparr>re = 1, im = 0\<rparr>, qb = \<lparr>re = 0, im = 0\<rparr>,
                 qc = \<lparr>re = 0, im = 0\<rparr>, qd = \<lparr>re = 1, im = 0\<rparr>\<rparr> (NumberV 1) \<and>
   \<not> isEqualTo \<lparr>qa = \<lparr>re = 1, im = 0\<rparr>, qb = \<lparr>re = 0, im = 0\<rparr>,
                 qc = \<lparr>re = 0, im = 0\<rparr>, qd = \<lparr>re = 1, im = 0\<rparr>\<rparr> NullV \<and>
   \<not> isEqualTo \<lparr>qa = \<lparr>re = 1, im = 0\<rparr>, qb = \<lparr>re = 0, im = 0\<rparr>,
                 qc = \<lparr>re = 0, im = 0\<rparr>, qd = \<lparr>re = 1, im = 0\<rparr>\<rparr> UndefinedV"
  using isEqualTo_foreign [of "NumberV 1"] isEqualTo_foreign [of NullV]
    isEqualTo_foreign [of UndefinedV]
  by simp

text \<open>
  C8: \<open>adjoint\<close> raises nothing and returns the conjugate transpose
  \<open>Quop(conj a, conj c, conj b, conj d)\<close>, and it is an involution: for every operation
  \<open>x\<close>, \<open>x.adjoint().adjoint().isEqualTo(x)\<close> holds.
\<close>

theorem adjoint_involution:
  "\<exists>y z. adjoint x = Inr y \<and>
     y = \<lparr>qa = conjugate (qa x), qb = conjugate (qc x), qc = conjugate (qb x),
          qd = conjugate (qd x)\<rparr> \<and>
     adjoint y = Inr z \<and> isEqualTo z (QuopV x)"
  by (simp add: adjoint_value isEqualTo_Quop conjugate_def)

text \<open>
  C9: \<open>toString\<close> renders the nested-brace form: two opening braces, the four entries in
  the Scalar's display form, separated by a comma and a space within a row and by
  \<open>}, {\<close> between the rows, two closing braces. When the Scalar displays \<open>1\<close> as \<open>1\<close>
  and \<open>0\<close> as \<open>0\<close>, the text of \<open>IDENTITY\<close> is \<open>{{1, 0}, {0, 1}}\<close>.
\<close>

theorem toString_format:
  "toString display q =
     concat [''{{'', display (qa q), '', '', display (qb q), ''}, {'',
             display (qc q), '', '', display (qd q), ''}}''] \<and>
   (display \<lparr>re = 1, im = 0\<rparr> = ''1'' \<and> display \<lparr>re = 0, im = 0\<rparr> = ''0'' \<longrightarrow>
      (\<exists>i. IDENTITY = Inr i \<and> toString display i = ''{{1, 0}, {0, 1}}''))"
  by (simp add: toString_def IDENTITY_value)

theorem toString_format_witness:
  "\<exists>i. IDENTITY = Inr i \<and>
     toString (\<lambda>c. if c = \<lparr>re = 1, im = 0\<rparr> then ''1'' else ''0'') i = ''{{1, 0}, {0, 1}}''"
proof -
  let ?d = "\<lambda>c::Complex_num. if c = \<lparr>re = 1, im = 0\<rparr> then ''1'' else ''0''"
  have "?d \<lparr>re = 1, im = 0\<rparr> = ''1'' \<and> ?d \<lparr>re = 0, im = 0\<rparr> = ''0''"
    by simp
  then show ?thesis
    by (rule toString_format [of ?d, THEN conjunct2, THEN mp])
qed

text \<open>
  C10: each Pauli constant is its own inverse and its own adjoint: \<open>PAULI_X\<close>,
  \<open>PAULI_Y\<close> and \<open>PAULI_Z\<close> times themselves are \<open>IDENTITY\<close>, and the adjoint of each
  is the constant itself.
\<close>

theorem pauli_self_inverse:
  "\<exists>i x y z.
     IDENTITY = Inr i \<and> PAULI_X = Inr x \<and> PAULI_Y = Inr y \<and> PAULI_Z = Inr z \<and>
     times x x = Inr i \<and> times y y = Inr i \<and> times z z = Inr i \<and>
     adjoint x = Inr x \<and> adjoint y = Inr y \<and> adjoint z = Inr z \<and>
     isEqualTo i (QuopV i)"
  by (simp add: IDENTITY_value PAULI_X_value PAULI_Y_value PAULI_Z_value times_value
      adjoint_value conjugate_def isEqualTo_Quop)

end
